theory Spec2Isabelle
  imports Main "HOL-Library.Char_ord" "HOL-Library.List_Lexorder"
begin

section \<open>Strings\<close>

text \<open>
  A JavaScript string is modelled as a \<^typ>\<open>string\<close>; one \<^typ>\<open>char\<close> stands for one
  character with a code below 256. Strings are compared the way MongoDB's default (binary)
  collation compares them: lexicographically by character code, which is the order
  \<open>HOL-Library.List_Lexorder\<close> puts on \<^typ>\<open>string\<close>.
\<close>

text \<open>The characters of JavaScript's \<open>\s\<close> class that have a code below 256.\<close>

definition is_space :: "char \<Rightarrow> bool" where
  "is_space c = (of_char c \<in> set [9, 10, 11, 12, 13, 32, 160 :: nat])"

text \<open>\<open>validator.trim(str)\<close> without a character set, and \<open>String.prototype.trim\<close>.\<close>

definition trim :: "string \<Rightarrow> string" where
  "trim s = rev (dropWhile is_space (rev (dropWhile is_space s)))"

text \<open>
  Case folding of the ASCII letters: what a caseless match does to a character when the
  pattern is made of ASCII characters.
\<close>

definition lower :: "char \<Rightarrow> char" where
  "lower c = (if 65 \<le> (of_char c :: nat) \<and> (of_char c :: nat) \<le> 90
              then char_of ((of_char c :: nat) + 32) else c)"

fun starts_with :: "string \<Rightarrow> string \<Rightarrow> bool" where
  "starts_with s [] = True"
| "starts_with [] (p # ps) = False"
| "starts_with (c # cs) (p # ps) = (c = p \<and> starts_with cs ps)"

text \<open>\<open>contains s p\<close>: \<open>p\<close> occurs in \<open>s\<close> as a contiguous run of characters.\<close>

fun contains :: "string \<Rightarrow> string \<Rightarrow> bool" where
  "contains [] p = (p = [])"
| "contains (c # cs) p = (starts_with (c # cs) p \<or> contains cs p)"

definition contains_ci :: "string \<Rightarrow> string \<Rightarrow> bool" where
  "contains_ci s p = contains (map lower s) (map lower p)"

text \<open>\<open>str.split(sep)\<close> for a separator of one character: the pieces between the separators.\<close>

fun split_on :: "char \<Rightarrow> string \<Rightarrow> string list" where
  "split_on sep [] = [[]]"
| "split_on sep (c # cs) =
     (if c = sep then [] # split_on sep cs
      else (case split_on sep cs of
              [] \<Rightarrow> [[c]]
            | p # ps \<Rightarrow> (c # p) # ps))"

text \<open>JavaScript truthiness of a value that is \<open>undefined\<close> or a string.\<close>

fun truthy :: "string option \<Rightarrow> bool" where
  "truthy None = False"
| "truthy (Some s) = (s \<noteq> [])"

section \<open>Identifiers\<close>

definition is_hex :: "char \<Rightarrow> bool" where
  "is_hex c = (let n = (of_char c :: nat) in
     (48 \<le> n \<and> n \<le> 57) \<or> (65 \<le> n \<and> n \<le> 70) \<or> (97 \<le> n \<and> n \<le> 102))"

text \<open>
  Mongoose's cast of a string to an \<open>ObjectId\<close>: a string of 24 hexadecimal digits is an
  identifier (two spellings that differ in letter case are the same identifier, kept here
  in lower case); any other string raises \<open>CastError\<close>, the value \<open>None\<close>. (Releases of
  the driver before version 5 also took any string of 12 characters for an identifier; the
  model follows the current ones.)
\<close>

definition castObjectId :: "string \<Rightarrow> string option" where
  "castObjectId s = (if length s = 24 \<and> list_all is_hex s then Some (map lower s) else None)"

section \<open>Data model\<close>

text \<open>\<open>models/Task.js\<close>: the documents of the Task collection. Dates are milliseconds.\<close>

record task =
  task_id :: string
  title :: string
  description :: "string option"
  status :: string
  priority :: string
  dueDate :: "nat option"
  user :: string
  createdAt :: nat
  updatedAt :: nat

text \<open>
  The documents of the User collection. \<open>password\<close> is \<open>None\<close> in a document that was
  read with \<open>select('-password')\<close>.
\<close>

record user_doc =
  user_id :: string
  name :: string
  email :: string
  password :: "string option"
  avatar :: "string option"
  user_createdAt :: nat
  user_updatedAt :: nat

record state =
  users :: "user_doc list"
  tasks :: "task list"

definition statuses :: "string list" where
  "statuses = [''todo'', ''in-progress'', ''completed'']"

definition priorities :: "string list" where
  "priorities = [''low'', ''medium'', ''high'']"

section \<open>Third-party code and the environment\<close>

datatype jwt_error = JsonWebTokenError string | NotBeforeError | TokenExpiredError

record jwt_payload =
  payload_id :: "string option"

text \<open>
  The functions of third-party packages that the routes call and that are not modelled
  here are parameters of the model:
  \<^item> \<open>jwt_verify token secret\<close> is \<open>jsonwebtoken.verify\<close>: the decoded payload, or the error
    it throws;
  \<^item> \<open>pcre pattern\<close> is the regular-expression engine of the database for a caseless
    pattern: \<open>None\<close> when the pattern does not compile, otherwise the unanchored matcher;
  \<^item> \<open>isISO8601\<close> is the validator of that name, \<open>castDate\<close> Mongoose's cast of a string
    to a \<open>Date\<close> (\<open>None\<close> for \<open>CastError\<close>);
  \<^item> \<open>isEmail\<close> and \<open>normalizeEmail\<close> are the validator and the sanitizer of those names.
\<close>

record lib =
  jwt_verify :: "string \<Rightarrow> string option \<Rightarrow> jwt_error + jwt_payload"
  pcre :: "string \<Rightarrow> (string \<Rightarrow> bool) option"
  isISO8601 :: "string \<Rightarrow> bool"
  castDate :: "string \<Rightarrow> nat option"
  isEmail :: "string \<Rightarrow> bool"
  normalizeEmail :: "string \<Rightarrow> string"

text \<open>
  What a request finds besides the store: \<open>process.env.JWT_SECRET\<close>, the clock, and the
  identifier the driver generates for the next inserted document.
\<close>

record env =
  JWT_SECRET :: "string option"
  now :: nat
  new_id :: string

section \<open>Responses\<close>

text \<open>One error of \<open>validationResult(req).array()\<close>: the field and the message.\<close>

type_synonym field_error = "string \<times> string"

datatype json_body =
    Message string
  | ValidationFailed "field_error list"
  | TaskList nat "task list"
  | TaskBody task
  | TaskMessage string "task option"
  | UserBody user_doc
  | UserMessage string user_doc

text \<open>
  \<open>Response code body\<close> is \<open>res.status(code).json(body)\<close>. \<open>ServerError\<close> is
  \<open>next(error)\<close>: the error handler of \<open>server.js\<close> answers with status 500 unless the
  error carries a status of its own, which the errors of the store do not.
\<close>

datatype response = Response nat json_body | ServerError

section \<open>Queries on the Task collection\<close>

text \<open>
  The characters that make a pattern more than a run of literal characters (and the
  character 0, which the database refuses in a pattern).
\<close>

definition regex_special :: "char list" where
  "regex_special = [CHR 0x00, CHR 0x5C, CHR ''^'', CHR ''$'', CHR ''.'', CHR ''|'', CHR ''?'',
     CHR ''*'', CHR ''+'', CHR ''('', CHR '')'', CHR ''['', CHR '']'', CHR ''{'', CHR ''}'']"

text \<open>
  A pattern that the engine reads character by character: ASCII characters, none of them
  special.
\<close>

definition regex_literal :: "string \<Rightarrow> bool" where
  "regex_literal p = list_all (\<lambda>c. (of_char c :: nat) < 128 \<and> c \<notin> set regex_special) p"

text \<open>
  \<open>{ $regex: p, $options: 'i' }\<close>: a pattern of literal characters matches the strings it
  occurs in, letter case ignored; any other pattern is left to the engine.
\<close>

definition regex_i :: "lib \<Rightarrow> string \<Rightarrow> (string \<Rightarrow> bool) option" where
  "regex_i L p = (if regex_literal p then Some (\<lambda>s. contains_ci s p) else pcre L p)"

text \<open>
  The filter object that \<open>GET /api/tasks\<close> builds: \<open>user\<close>, \<open>status\<close>, \<open>priority\<close>, and
  the pattern of the \<open>$or\<close> of the two \<open>$regex\<close> conditions on title and description.
\<close>

record task_filter =
  f_user :: string
  f_status :: "string option"
  f_priority :: "string option"
  f_search :: "string option"

definition field_matches :: "string option \<Rightarrow> string \<Rightarrow> bool" where
  "field_matches f v = (case f of None \<Rightarrow> True | Some x \<Rightarrow> v = x)"

definition or_regex :: "(string \<Rightarrow> bool) \<Rightarrow> task \<Rightarrow> bool" where
  "or_regex m t = (m (title t) \<or> (case description t of None \<Rightarrow> False | Some d \<Rightarrow> m d))"

definition filter_matches :: "task_filter \<Rightarrow> task \<Rightarrow> bool" where
  "filter_matches f t =
     (user t = f_user f \<and> field_matches (f_status f) (status t)
      \<and> field_matches (f_priority f) (priority t))"

text \<open>\<open>Task.find(filter)\<close>: \<open>None\<close> when the database rejects the query.\<close>

definition Task_find :: "lib \<Rightarrow> task_filter \<Rightarrow> task list \<Rightarrow> task list option" where
  "Task_find L f ts =
     (case f_search f of
        None \<Rightarrow> Some (filter (filter_matches f) ts)
      | Some p \<Rightarrow>
          (case regex_i L p of
             None \<Rightarrow> None
           | Some m \<Rightarrow> Some (filter (\<lambda>t. filter_matches f t \<and> or_regex m t) ts)))"

text \<open>
  The values a sort key of a task can have, in the database's order: null before
  strings before dates.
\<close>

datatype bson = BNull | BString string | BDate nat

fun bson_le :: "bson \<Rightarrow> bson \<Rightarrow> bool" where
  "bson_le BNull y = True"
| "bson_le (BString a) BNull = False"
| "bson_le (BString a) (BString b) = (a \<le> b)"
| "bson_le (BString a) (BDate b) = True"
| "bson_le (BDate a) (BDate b) = (a \<le> b)"
| "bson_le (BDate a) y = False"

definition sort_field :: "string \<Rightarrow> task \<Rightarrow> bson" where
  "sort_field f t =
     (if f = ''createdAt'' then BDate (createdAt t)
      else if f = ''dueDate'' then (case dueDate t of None \<Rightarrow> BNull | Some d \<Rightarrow> BDate d)
      else if f = ''priority'' then BString (priority t)
      else if f = ''title'' then BString (title t)
      else BNull)"

fun insort_by :: "('a \<Rightarrow> 'a \<Rightarrow> bool) \<Rightarrow> 'a \<Rightarrow> 'a list \<Rightarrow> 'a list" where
  "insort_by le x [] = [x]"
| "insort_by le x (y # ys) = (if le x y then x # y # ys else y # insort_by le x ys)"

fun sort_by :: "('a \<Rightarrow> 'a \<Rightarrow> bool) \<Rightarrow> 'a list \<Rightarrow> 'a list" where
  "sort_by le [] = []"
| "sort_by le (x # xs) = insort_by le x (sort_by le xs)"

text \<open>
  \<open>.sort({ [field]: dir })\<close> with \<open>dir\<close> 1 or -1. The database leaves the order of
  documents with equal keys open; the model keeps them in the order of the collection.
\<close>

definition Query_sort :: "string \<Rightarrow> int \<Rightarrow> task list \<Rightarrow> task list" where
  "Query_sort f dir ts =
     (if dir = 1 then sort_by (\<lambda>a b. bson_le (sort_field f a) (sort_field f b)) ts
      else sort_by (\<lambda>a b. bson_le (sort_field f b) (sort_field f a)) ts)"

section \<open>\<open>GET /api/tasks\<close>\<close>

record query =
  q_status :: "string option"
  q_priority :: "string option"
  q_search :: "string option"
  q_sortBy :: "string option"
  q_sortOrder :: "string option"

text \<open>
  \<open>query(field).optional().isIn(allowed)\<close>: \<open>optional()\<close> skips the chain only for a
  field that is \<open>undefined\<close>.
\<close>

definition optional_isIn :: "string \<Rightarrow> string \<Rightarrow> string option \<Rightarrow> string list \<Rightarrow> field_error list" where
  "optional_isIn field msg v allowed =
     (case v of None \<Rightarrow> [] | Some s \<Rightarrow> if s \<in> set allowed then [] else [(field, msg)])"

definition list_errors :: "query \<Rightarrow> field_error list" where
  "list_errors q =
     optional_isIn ''status'' ''Invalid value'' (q_status q) statuses
     @ optional_isIn ''priority'' ''Invalid value'' (q_priority q) priorities
     @ optional_isIn ''sortBy'' ''Invalid value'' (q_sortBy q)
         [''createdAt'', ''dueDate'', ''priority'', ''title'']
     @ optional_isIn ''sortOrder'' ''Invalid value'' (q_sortOrder q) [''asc'', ''desc'']"

text \<open>
  The handler. It reads \<open>req.query\<close> after the chains have run, so \<open>search\<close> is the
  trimmed string; \<open>req_user\<close> is the \<open>req.user\<close> that the middleware has set.
\<close>

definition get_tasks :: "lib \<Rightarrow> state \<Rightarrow> user_doc \<Rightarrow> query \<Rightarrow> response \<times> state" where
  "get_tasks L st req_user q =
     (let errors = list_errors q in
      if errors \<noteq> [] then (Response 400 (ValidationFailed errors), st)
      else
        let search = map_option trim (q_search q);
            sortBy = (case q_sortBy q of None \<Rightarrow> ''createdAt'' | Some s \<Rightarrow> s);
            sortOrder = (case q_sortOrder q of None \<Rightarrow> ''desc'' | Some s \<Rightarrow> s);
            filter = \<lparr> f_user = user_id req_user,
                       f_status = (if truthy (q_status q) then q_status q else None),
                       f_priority = (if truthy (q_priority q) then q_priority q else None),
                       f_search = (if truthy search then search else None) \<rparr>;
            dir = (if sortOrder = ''asc'' then 1 else - 1)
        in (case Task_find L filter (tasks st) of
              None \<Rightarrow> (ServerError, st)
            | Some found \<Rightarrow>
                (let ts = Query_sort sortBy dir found
                 in (Response 200 (TaskList (length ts) ts), st))))"

section \<open>The Task model\<close>

datatype store_error = CastError | ValidationError | DuplicateKey

text \<open>
  The body of a task request: a JSON object. The model keeps the members \<open>title\<close>,
  \<open>description\<close>, \<open>status\<close>, \<open>priority\<close>, \<open>dueDate\<close> and \<open>user\<close>, each of them absent
  or a string. Members of other types and other members (among them \<open>_id\<close> and the
  timestamps) are outside the model.
\<close>

record task_body =
  b_title :: "string option"
  b_description :: "string option"
  b_status :: "string option"
  b_priority :: "string option"
  b_dueDate :: "string option"
  b_user :: "string option"

text \<open>The validators of the Task schema: \<open>required\<close>, \<open>maxlength\<close> and \<open>enum\<close>.\<close>

definition title_valid :: "string \<Rightarrow> bool" where
  "title_valid t = (t \<noteq> [] \<and> length t \<le> 200)"

definition description_valid :: "string \<Rightarrow> bool" where
  "description_valid d = (length d \<le> 1000)"

definition or_default :: "string option \<Rightarrow> string \<Rightarrow> string" where
  "or_default v d = (case v of None \<Rightarrow> d | Some s \<Rightarrow> s)"

text \<open>
  \<open>Task.create(data)\<close>: the paths are cast (strings trimmed, the date and the owner
  converted), the defaults filled in, the document validated and inserted. A failed cast
  of a new document is reported as a validation error.
\<close>

definition Task_create :: "lib \<Rightarrow> env \<Rightarrow> task_body \<Rightarrow> task list \<Rightarrow> store_error + task \<times> task list" where
  "Task_create L E data ts =
     (case (case b_dueDate data of None \<Rightarrow> Some None | Some s \<Rightarrow> map_option Some (castDate L s)) of
        None \<Rightarrow> Inl ValidationError
      | Some due \<Rightarrow>
     (case (case b_user data of None \<Rightarrow> None | Some s \<Rightarrow> castObjectId s) of
        None \<Rightarrow> Inl ValidationError
      | Some owner \<Rightarrow>
     (case map_option trim (b_title data) of
        None \<Rightarrow> Inl ValidationError
      | Some t \<Rightarrow>
          (let doc = \<lparr> task_id = new_id E, title = t,
                       description = map_option trim (b_description data),
                       status = or_default (b_status data) ''todo'',
                       priority = or_default (b_priority data) ''medium'',
                       dueDate = due, user = owner,
                       createdAt = now E, updatedAt = now E \<rparr>
           in if \<not> (title_valid (title doc)
                     \<and> (case description doc of None \<Rightarrow> True | Some d \<Rightarrow> description_valid d)
                     \<and> status doc \<in> set statuses \<and> priority doc \<in> set priorities)
              then Inl ValidationError
              else if new_id E \<in> set (map task_id ts) then Inl DuplicateKey
              else Inr (doc, ts @ [doc])))))"

text \<open>\<open>Task.findOne({ _id: req.params.id, user: owner })\<close>.\<close>

definition Task_findOne :: "task list \<Rightarrow> string \<Rightarrow> string \<Rightarrow> store_error + task option" where
  "Task_findOne ts params_id owner =
     (case castObjectId params_id of
        None \<Rightarrow> Inl CastError
      | Some i \<Rightarrow> Inr (find (\<lambda>t. task_id t = i \<and> user t = owner) ts))"

fun update_first :: "('a \<Rightarrow> bool) \<Rightarrow> ('a \<Rightarrow> 'a) \<Rightarrow> 'a list \<Rightarrow> 'a list" where
  "update_first P f [] = []"
| "update_first P f (x # xs) = (if P x then f x # xs else x # update_first P f xs)"

fun delete_first :: "('a \<Rightarrow> bool) \<Rightarrow> 'a list \<Rightarrow> 'a list" where
  "delete_first P [] = []"
| "delete_first P (x # xs) = (if P x then xs else x # delete_first P xs)"

definition set_path :: "'a option \<Rightarrow> 'a \<Rightarrow> 'a" where
  "set_path v old = (case v of None \<Rightarrow> old | Some x \<Rightarrow> x)"

text \<open>
  \<open>Task.findByIdAndUpdate(id, update, { new: true, runValidators: true })\<close>: the members
  of \<open>update\<close> are cast and set on the document with that identifier, whoever owns it;
  the validators run on the paths that are set; \<open>updatedAt\<close> is refreshed. The result is
  the document after the update.
\<close>

definition Task_findByIdAndUpdate ::
  "lib \<Rightarrow> env \<Rightarrow> string \<Rightarrow> task_body \<Rightarrow> task list \<Rightarrow> store_error + task option \<times> task list" where
  "Task_findByIdAndUpdate L E params_id upd ts =
     (case castObjectId params_id of
        None \<Rightarrow> Inl CastError
      | Some i \<Rightarrow>
     (case (case b_dueDate upd of None \<Rightarrow> Some None | Some s \<Rightarrow> map_option Some (castDate L s)) of
        None \<Rightarrow> Inl CastError
      | Some due \<Rightarrow>
     (case (case b_user upd of None \<Rightarrow> Some None | Some s \<Rightarrow> map_option Some (castObjectId s)) of
        None \<Rightarrow> Inl CastError
      | Some owner \<Rightarrow>
          (let t = map_option trim (b_title upd);
               d = map_option trim (b_description upd)
           in if \<not> ((case t of None \<Rightarrow> True | Some x \<Rightarrow> title_valid x)
                     \<and> (case d of None \<Rightarrow> True | Some x \<Rightarrow> description_valid x)
                     \<and> (case b_status upd of None \<Rightarrow> True | Some x \<Rightarrow> x \<in> set statuses)
                     \<and> (case b_priority upd of None \<Rightarrow> True | Some x \<Rightarrow> x \<in> set priorities))
              then Inl ValidationError
              else
                (let ts' = update_first (\<lambda>x. task_id x = i)
                       (\<lambda>x. x\<lparr> title := set_path t (title x),
                                description := (case d of None \<Rightarrow> description x | Some y \<Rightarrow> Some y),
                                status := set_path (b_status upd) (status x),
                                priority := set_path (b_priority upd) (priority x),
                                dueDate := (case due of None \<Rightarrow> dueDate x | Some y \<Rightarrow> Some y),
                                user := set_path owner (user x),
                                updatedAt := now E \<rparr>) ts
                 in Inr (find (\<lambda>x. task_id x = i) ts', ts'))))))"

text \<open>\<open>Task.findByIdAndDelete(id)\<close>.\<close>

definition Task_findByIdAndDelete :: "string \<Rightarrow> task list \<Rightarrow> store_error + task list" where
  "Task_findByIdAndDelete params_id ts =
     (case castObjectId params_id of
        None \<Rightarrow> Inl CastError
      | Some i \<Rightarrow> Inr (delete_first (\<lambda>x. task_id x = i) ts))"

section \<open>The validation chains of the task bodies\<close>

definition toString :: "string option \<Rightarrow> string" where
  "toString v = (case v of None \<Rightarrow> [] | Some s \<Rightarrow> s)"

definition check :: "bool \<Rightarrow> string \<Rightarrow> string \<Rightarrow> field_error list" where
  "check ok field msg = (if ok then [] else [(field, msg)])"

text \<open>The chains for description, status, priority and dueDate, the same in POST and PUT.\<close>

definition common_errors :: "lib \<Rightarrow> task_body \<Rightarrow> field_error list" where
  "common_errors L b =
     (case b_description b of
        None \<Rightarrow> []
      | Some d \<Rightarrow> check (length (trim d) \<le> 1000) ''description''
                   ''Description cannot exceed 1000 characters'')
     @ optional_isIn ''status'' ''Invalid status'' (b_status b) statuses
     @ optional_isIn ''priority'' ''Invalid priority'' (b_priority b) priorities
     @ (case b_dueDate b of
          None \<Rightarrow> []
        | Some d \<Rightarrow> check (isISO8601 L d) ''dueDate'' ''Invalid date format'')"

text \<open>
  \<open>body('title').trim().notEmpty().isLength({ max: 200 })\<close>: not optional, so a missing
  title is validated as the empty string.
\<close>

definition create_errors :: "lib \<Rightarrow> task_body \<Rightarrow> field_error list" where
  "create_errors L b =
     (let t = trim (toString (b_title b))
      in check (t \<noteq> []) ''title'' ''Task title is required''
         @ check (length t \<le> 200) ''title'' ''Title cannot exceed 200 characters'')
     @ common_errors L b"

definition update_errors :: "lib \<Rightarrow> task_body \<Rightarrow> field_error list" where
  "update_errors L b =
     (case b_title b of
        None \<Rightarrow> []
      | Some s \<Rightarrow>
          (let t = trim s
           in check (t \<noteq> []) ''title'' ''Title cannot be empty''
              @ check (length t \<le> 200) ''title'' ''Title cannot exceed 200 characters''))
     @ common_errors L b"

text \<open>The body after the sanitizers: title and description trimmed.\<close>

definition sanitized :: "task_body \<Rightarrow> task_body" where
  "sanitized b = b\<lparr> b_title := map_option trim (b_title b),
                    b_description := map_option trim (b_description b) \<rparr>"

section \<open>The handlers of single tasks\<close>

definition invalid_id :: response where
  "invalid_id = Response 400 (Message ''Invalid task ID'')"

definition not_found :: response where
  "not_found = Response 404 (Message ''Task not found'')"

definition get_task :: "state \<Rightarrow> user_doc \<Rightarrow> string \<Rightarrow> response \<times> state" where
  "get_task st req_user params_id =
     (case Task_findOne (tasks st) params_id (user_id req_user) of
        Inl CastError \<Rightarrow> (invalid_id, st)
      | Inl _ \<Rightarrow> (ServerError, st)
      | Inr None \<Rightarrow> (not_found, st)
      | Inr (Some t) \<Rightarrow> (Response 200 (TaskBody t), st))"

definition post_task :: "lib \<Rightarrow> env \<Rightarrow> state \<Rightarrow> user_doc \<Rightarrow> task_body \<Rightarrow> response \<times> state" where
  "post_task L E st req_user b =
     (let errors = create_errors L b in
      if errors \<noteq> [] then (Response 400 (ValidationFailed errors), st)
      else
        (let taskData = (sanitized b)\<lparr> b_user := Some (user_id req_user) \<rparr>
         in (case Task_create L E taskData (tasks st) of
               Inl _ \<Rightarrow> (ServerError, st)
             | Inr (t, ts') \<Rightarrow>
                 (Response 201 (TaskMessage ''Task created successfully'' (Some t)),
                  st\<lparr> tasks := ts' \<rparr>))))"

definition put_task ::
  "lib \<Rightarrow> env \<Rightarrow> state \<Rightarrow> user_doc \<Rightarrow> string \<Rightarrow> task_body \<Rightarrow> response \<times> state" where
  "put_task L E st req_user params_id b =
     (let errors = update_errors L b in
      if errors \<noteq> [] then (Response 400 (ValidationFailed errors), st)
      else
        (case Task_findOne (tasks st) params_id (user_id req_user) of
           Inl CastError \<Rightarrow> (invalid_id, st)
         | Inl _ \<Rightarrow> (ServerError, st)
         | Inr None \<Rightarrow> (not_found, st)
         | Inr (Some _) \<Rightarrow>
             (case Task_findByIdAndUpdate L E params_id (sanitized b) (tasks st) of
                Inl CastError \<Rightarrow> (invalid_id, st)
              | Inl _ \<Rightarrow> (ServerError, st)
              | Inr (t, ts') \<Rightarrow>
                  (Response 200 (TaskMessage ''Task updated successfully'' t),
                   st\<lparr> tasks := ts' \<rparr>))))"

definition delete_task :: "state \<Rightarrow> user_doc \<Rightarrow> string \<Rightarrow> response \<times> state" where
  "delete_task st req_user params_id =
     (case Task_findOne (tasks st) params_id (user_id req_user) of
        Inl CastError \<Rightarrow> (invalid_id, st)
      | Inl _ \<Rightarrow> (ServerError, st)
      | Inr None \<Rightarrow> (not_found, st)
      | Inr (Some _) \<Rightarrow>
          (case Task_findByIdAndDelete params_id (tasks st) of
             Inl CastError \<Rightarrow> (invalid_id, st)
           | Inl _ \<Rightarrow> (ServerError, st)
           | Inr ts' \<Rightarrow>
               (Response 200 (Message ''Task deleted successfully''), st\<lparr> tasks := ts' \<rparr>)))"

section \<open>The auth middleware\<close>

text \<open>
  \<open>User.findById(id)\<close>, \<open>id\<close> being a member of the decoded payload: \<open>undefined\<close> finds
  nothing, a string is cast to an identifier first.
\<close>

definition User_findById :: "user_doc list \<Rightarrow> string option \<Rightarrow> store_error + user_doc option" where
  "User_findById us v =
     (case v of
        None \<Rightarrow> Inr None
      | Some s \<Rightarrow>
          (case castObjectId s of
             None \<Rightarrow> Inl CastError
           | Some i \<Rightarrow> Inr (find (\<lambda>u. user_id u = i) us)))"

text \<open>The token of the \<open>Authorization\<close> header: \<open>authorization.split(' ')[1]\<close>.\<close>

definition bearer_token :: "string option \<Rightarrow> string option" where
  "bearer_token authorization =
     (if truthy authorization \<and> starts_with (toString authorization) ''Bearer''
      then (case split_on CHR '' '' (toString authorization) of
              _ # t # _ \<Rightarrow> Some t
            | _ \<Rightarrow> None)
      else None)"

definition not_authorized :: response where
  "not_authorized = Response 401 (Message ''Not authorized to access this route. Please login.'')"

definition invalid_token :: response where
  "invalid_token = Response 401 (Message ''Invalid token. Please login again.'')"

definition user_not_found :: response where
  "user_not_found = Response 401 (Message ''User not found with this token'')"

text \<open>
  \<open>protect\<close>: \<open>Inl\<close> is the response the middleware sends itself, \<open>Inr\<close> is \<open>req.user\<close>
  when it calls \<open>next()\<close>. The inner \<open>catch\<close> answers every error of \<open>jwt.verify\<close> and of
  the lookup of the user in the same way.
\<close>

definition protect :: "lib \<Rightarrow> env \<Rightarrow> user_doc list \<Rightarrow> string option \<Rightarrow> response + user_doc" where
  "protect L E us authorization =
     (let token = bearer_token authorization in
      if \<not> truthy token then Inl not_authorized
      else
        (case jwt_verify L (toString token) (JWT_SECRET E) of
           Inl _ \<Rightarrow> Inl invalid_token
         | Inr decoded \<Rightarrow>
             (case User_findById us (payload_id decoded) of
                Inl _ \<Rightarrow> Inl invalid_token
              | Inr None \<Rightarrow> Inl user_not_found
              | Inr (Some u) \<Rightarrow> Inr (u\<lparr> password := None \<rparr>))))"

section \<open>The routers\<close>

datatype task_route =
    ListTasks query
  | GetTask string
  | CreateTask task_body
  | UpdateTask string task_body
  | DeleteTask string

text \<open>\<open>routes/tasks.js\<close>: \<open>router.use(protect)\<close>, then the handler of the route.\<close>

definition tasks_router ::
  "lib \<Rightarrow> env \<Rightarrow> state \<Rightarrow> string option \<Rightarrow> task_route \<Rightarrow> response \<times> state" where
  "tasks_router L E st authorization r =
     (case protect L E (users st) authorization of
        Inl res \<Rightarrow> (res, st)
      | Inr req_user \<Rightarrow>
          (case r of
             ListTasks q \<Rightarrow> get_tasks L st req_user q
           | GetTask i \<Rightarrow> get_task st req_user i
           | CreateTask b \<Rightarrow> post_task L E st req_user b
           | UpdateTask i b \<Rightarrow> put_task L E st req_user i b
           | DeleteTask i \<Rightarrow> delete_task st req_user i))"

section \<open>The profile routes\<close>

record profile_body =
  p_name :: "string option"
  p_email :: "string option"
  p_avatar :: "string option"

datatype profile_route = GetProfile | UpdateProfile profile_body

definition profile_errors :: "lib \<Rightarrow> profile_body \<Rightarrow> field_error list" where
  "profile_errors L b =
     (case p_name b of
        None \<Rightarrow> []
      | Some s \<Rightarrow>
          (let n = trim s
           in check (n \<noteq> []) ''name'' ''Name cannot be empty''
              @ check (length n \<le> 50) ''name'' ''Name cannot exceed 50 characters''))
     @ (case p_email b of
          None \<Rightarrow> []
        | Some e \<Rightarrow> check (isEmail L e) ''email'' ''Please provide a valid email'')"

definition get_profile :: "state \<Rightarrow> user_doc \<Rightarrow> response \<times> state" where
  "get_profile st req_user =
     (case find (\<lambda>u. user_id u = user_id req_user) (users st) of
        None \<Rightarrow> (Response 404 (Message ''User not found''), st)
      | Some u \<Rightarrow> (Response 200 (UserBody (u\<lparr> password := None \<rparr>)), st))"

text \<open>
  Modelled from the spec: the validators of the User schema (\<open>models/User.js\<close> is not among
  the sources), which \<open>User.findByIdAndUpdate\<close> runs on the paths it sets: a name is
  required and has at most 50 characters, an email is required.
\<close>

definition user_update_valid :: "string option \<Rightarrow> string option \<Rightarrow> bool" where
  "user_update_valid n e =
     ((case n of None \<Rightarrow> True | Some x \<Rightarrow> x \<noteq> [] \<and> length x \<le> 50)
      \<and> (case e of None \<Rightarrow> True | Some x \<Rightarrow> x \<noteq> []))"

definition put_profile :: "lib \<Rightarrow> env \<Rightarrow> state \<Rightarrow> user_doc \<Rightarrow> profile_body \<Rightarrow> response \<times> state" where
  "put_profile L E st req_user b =
     (let errors = profile_errors L b in
      if errors \<noteq> [] then (Response 400 (ValidationFailed errors), st)
      else
        (let n = map_option trim (p_name b);
             e = map_option (normalizeEmail L) (p_email b);
             upd_name = (if truthy n then n else None);
             upd_email = (if truthy e then e else None)
         in if truthy e \<and>
               find (\<lambda>u. email u = toString e \<and> user_id u \<noteq> user_id req_user) (users st) \<noteq> None
            then (Response 400 (Message ''Email is already taken by another user''), st)
            else if \<not> user_update_valid upd_name upd_email then (ServerError, st)
            else
              (let us' = update_first (\<lambda>u. user_id u = user_id req_user)
                     (\<lambda>u. u\<lparr> name := set_path upd_name (name u),
                              email := set_path upd_email (email u),
                              avatar := (case p_avatar b of None \<Rightarrow> avatar u | Some a \<Rightarrow> Some a),
                              user_updatedAt := now E \<rparr>) (users st)
               in (case find (\<lambda>u. user_id u = user_id req_user) us' of
                     None \<Rightarrow> (ServerError, st\<lparr> users := us' \<rparr>)
                   | Some u \<Rightarrow>
                       (Response 200 (UserMessage ''Profile updated successfully''
                          (u\<lparr> password := None \<rparr>)),
                        st\<lparr> users := us' \<rparr>)))))"

text \<open>\<open>routes/profile.js\<close>: \<open>router.use(protect)\<close>, then the handler of the route.\<close>

definition profile_router ::
  "lib \<Rightarrow> env \<Rightarrow> state \<Rightarrow> string option \<Rightarrow> profile_route \<Rightarrow> response \<times> state" where
  "profile_router L E st authorization r =
     (case protect L E (users st) authorization of
        Inl res \<Rightarrow> (res, st)
      | Inr req_user \<Rightarrow>
          (case r of
             GetProfile \<Rightarrow> get_profile st req_user
           | UpdateProfile b \<Rightarrow> put_profile L E st req_user b))"

section \<open>The Token Service\<close>

text \<open>
  What a token string carries once it is parsed: the decoded payload, the time at which it
  expires (on the clock of \<open>now\<close>), the text that was signed, and the signature, which is
  empty for an unsigned token.
\<close>

record token_parts =
  tp_payload :: jwt_payload
  tp_exp :: nat
  tp_signed :: string
  tp_signature :: string

text \<open>
  The encoding and the signing function of the token scheme, left open: \<open>decode\<close> parses a
  token string (\<open>None\<close> for a malformed one), \<open>sign secret text\<close> is the signature of a text
  under a secret.
\<close>

record jwt_codec =
  decode :: "string \<Rightarrow> token_parts option"
  sign :: "string \<Rightarrow> string \<Rightarrow> string"

text \<open>The signature of a token is valid under the configured secret.\<close>

definition signature_valid :: "jwt_codec \<Rightarrow> string option \<Rightarrow> token_parts \<Rightarrow> bool" where
  "signature_valid C secret tp =
     (case secret of
        None \<Rightarrow> False
      | Some k \<Rightarrow> tp_signature tp \<noteq> [] \<and> tp_signature tp = sign C k (tp_signed tp))"

text \<open>
  Modelled from the spec: \<open>verify\<close> of the Token Service (section 4.1), which the code
  takes from the package \<open>jsonwebtoken\<close>, not among the sources. It returns the decoded
  payload, with the user identifier, if the signature is valid and the token has not
  expired; otherwise it fails, for a malformed, an unsigned, a tampered or an expired
  token. The errors carry the names the package gives to these causes.
\<close>

definition verify :: "jwt_codec \<Rightarrow> nat \<Rightarrow> string \<Rightarrow> string option \<Rightarrow> jwt_error + jwt_payload" where
  "verify C clock token secret =
     (case decode C token of
        None \<Rightarrow> Inl (JsonWebTokenError ''jwt malformed'')
      | Some tp \<Rightarrow>
          if tp_signature tp = [] then Inl (JsonWebTokenError ''jwt signature is required'')
          else if \<not> signature_valid C secret tp then Inl (JsonWebTokenError ''invalid signature'')
          else if \<not> clock < tp_exp tp then Inl TokenExpiredError
          else Inr (tp_payload tp))"

section \<open>A small deployment\<close>

text \<open>
  Two users, four tasks and stand-ins for the third-party functions, on which the
  statements below are evaluated.
\<close>

definition alice_id :: string where
  "alice_id = ''65a1f0c2b3d4e5f6a7b8c9d0''"

definition bob_id :: string where
  "bob_id = ''65a1f0c2b3d4e5f6a7b8c9d1''"

definition alice :: user_doc where
  "alice = \<lparr> user_id = alice_id, name = ''Ann'', email = ''ann@x.com'',
             password = Some ''$2a$10$hash-of-secret1'', avatar = None,
             user_createdAt = 100, user_updatedAt = 100 \<rparr>"

definition bob :: user_doc where
  "bob = \<lparr> user_id = bob_id, name = ''Bob'', email = ''bob@x.com'',
           password = Some ''$2a$10$hash-of-secret2'', avatar = None,
           user_createdAt = 200, user_updatedAt = 200 \<rparr>"

definition task_spec :: task where
  "task_spec = \<lparr> task_id = ''75a1f0c2b3d4e5f6a7b8c9a1'', title = ''Write spec'',
                 description = None, status = ''completed'', priority = ''low'',
                 dueDate = None, user = alice_id, createdAt = 300, updatedAt = 300 \<rparr>"

definition task_milk :: task where
  "task_milk = \<lparr> task_id = ''75a1f0c2b3d4e5f6a7b8c9a2'', title = ''Buy milk'',
                 description = Some ''Two litres'', status = ''completed'', priority = ''high'',
                 dueDate = Some 900, user = alice_id, createdAt = 400, updatedAt = 400 \<rparr>"

definition task_call :: task where
  "task_call = \<lparr> task_id = ''75a1f0c2b3d4e5f6a7b8c9a3'', title = ''Call Bob'',
                 description = Some ''about the spec'', status = ''todo'', priority = ''medium'',
                 dueDate = None, user = alice_id, createdAt = 500, updatedAt = 500 \<rparr>"

definition task_bob :: task where
  "task_bob = \<lparr> task_id = ''75a1f0c2b3d4e5f6a7b8c9b1'', title = ''Pay rent'',
                description = None, status = ''completed'', priority = ''high'',
                dueDate = None, user = bob_id, createdAt = 600, updatedAt = 600 \<rparr>"

definition demo_state :: state where
  "demo_state = \<lparr> users = [alice, bob], tasks = [task_spec, task_milk, task_call, task_bob] \<rparr>"

definition demo_lib :: lib where
  "demo_lib = \<lparr>
     jwt_verify = (\<lambda>token secret.
        if secret \<noteq> Some ''secret_jwt_key'' then Inl (JsonWebTokenError ''invalid signature'')
        else if token = ''token-of-alice'' then Inr \<lparr> payload_id = Some alice_id \<rparr>
        else if token = ''token-of-bob'' then Inr \<lparr> payload_id = Some bob_id \<rparr>
        else if token = ''token-of-nobody'' then Inr \<lparr> payload_id = Some ''65a1f0c2b3d4e5f6a7b8c9d9'' \<rparr>
        else if token = ''old-token-of-alice'' then Inl TokenExpiredError
        else Inl (JsonWebTokenError ''jwt malformed'')),
     pcre = (\<lambda>pattern. None),
     isISO8601 = (\<lambda>s. s = ''2026-01-01''),
     castDate = (\<lambda>s. if s = ''2026-01-01'' then Some 1767225600000 else None),
     isEmail = (\<lambda>s. CHR ''@'' \<in> set s),
     normalizeEmail = map lower \<rparr>"

definition demo_env :: env where
  "demo_env = \<lparr> JWT_SECRET = Some ''secret_jwt_key'', now = 1000,
                new_id = ''75a1f0c2b3d4e5f6a7b8c9ff'' \<rparr>"

definition no_query :: query where
  "no_query = \<lparr> q_status = None, q_priority = None, q_search = None,
                q_sortBy = None, q_sortOrder = None \<rparr>"

definition no_body :: task_body where
  "no_body = \<lparr> b_title = None, b_description = None, b_status = None, b_priority = None,
               b_dueDate = None, b_user = None \<rparr>"

text \<open>
  A token scheme for the deployment: four tokens that parse (a fresh one of Ann, an
  expired one, one whose payload was changed to Bob after signing, one without a
  signature), every other string malformed; and the package's \<open>verify\<close> built on it.
\<close>

definition demo_codec :: jwt_codec where
  "demo_codec = \<lparr>
     decode = (\<lambda>token.
        if token = ''fresh-token-of-alice''
        then Some \<lparr> tp_payload = \<lparr> payload_id = Some alice_id \<rparr>, tp_exp = 2000,
                    tp_signed = ''id=alice;exp=2000'',
                    tp_signature = ''mac(secret_jwt_key,id=alice;exp=2000)'' \<rparr>
        else if token = ''expired-token-of-alice''
        then Some \<lparr> tp_payload = \<lparr> payload_id = Some alice_id \<rparr>, tp_exp = 900,
                    tp_signed = ''id=alice;exp=900'',
                    tp_signature = ''mac(secret_jwt_key,id=alice;exp=900)'' \<rparr>
        else if token = ''tampered-token-of-alice''
        then Some \<lparr> tp_payload = \<lparr> payload_id = Some bob_id \<rparr>, tp_exp = 2000,
                    tp_signed = ''id=bob;exp=2000'',
                    tp_signature = ''mac(secret_jwt_key,id=alice;exp=2000)'' \<rparr>
        else if token = ''unsigned-token-of-alice''
        then Some \<lparr> tp_payload = \<lparr> payload_id = Some alice_id \<rparr>, tp_exp = 2000,
                    tp_signed = ''id=alice;exp=2000'', tp_signature = [] \<rparr>
        else None),
     sign = (\<lambda>secret text. ''mac('' @ secret @ '','' @ text @ '')'') \<rparr>"

definition token_lib :: lib where
  "token_lib = demo_lib\<lparr> jwt_verify := verify demo_codec (now demo_env) \<rparr>"

section \<open>Strings, sorting and identifiers\<close>

lemma starts_with_iff: "starts_with s p \<longleftrightarrow> (\<exists>b. s = p @ b)"
  by (induction s p rule: starts_with.induct) auto

lemma contains_iff: "contains s p \<longleftrightarrow> (\<exists>a b. s = a @ p @ b)"
proof (induction s)
  case Nil
  then show ?case by auto
next
  case (Cons c cs)
  show ?case
  proof
    assume "contains (c # cs) p"
    then consider "starts_with (c # cs) p" | "contains cs p" by auto
    then show "\<exists>a b. c # cs = a @ p @ b"
    proof cases
      case 1
      then obtain b where "c # cs = p @ b" by (auto simp: starts_with_iff)
      then have "c # cs = [] @ p @ b" by simp
      then show ?thesis by blast
    next
      case 2
      then obtain a b where "cs = a @ p @ b" using Cons.IH by auto
      then have "c # cs = (c # a) @ p @ b" by simp
      then show ?thesis by blast
    qed
  next
    assume "\<exists>a b. c # cs = a @ p @ b"
    then obtain a b where ab: "c # cs = a @ p @ b" by blast
    show "contains (c # cs) p"
    proof (cases a)
      case Nil
      with ab have "starts_with (c # cs) p" by (auto simp: starts_with_iff)
      then show ?thesis by simp
    next
      case (Cons x a')
      with ab have "cs = a' @ p @ b" by simp
      then have "contains cs p" using Cons.IH by blast
      then show ?thesis by simp
    qed
  qed
qed

lemma set_insort_by: "set (insort_by le x xs) = insert x (set xs)"
  by (induction xs) auto

lemma set_sort_by: "set (sort_by le xs) = set xs"
  by (induction xs) (auto simp: set_insort_by)

lemma sorted_insort_by:
  assumes total: "\<And>a b. le a b \<or> le b a"
    and trans: "\<And>a b c. le a b \<Longrightarrow> le b c \<Longrightarrow> le a c"
  shows "sorted_wrt le xs \<Longrightarrow> sorted_wrt le (insort_by le x xs)"
proof (induction xs)
  case Nil
  then show ?case by simp
next
  case (Cons y ys)
  show ?case
  proof (cases "le x y")
    case True
    then have "\<forall>z\<in>set ys. le x z" using Cons.prems trans by auto
    with True Cons.prems show ?thesis by simp
  next
    case False
    then have "le y x" using total by blast
    with False Cons show ?thesis by (auto simp: set_insort_by)
  qed
qed

lemma sorted_sort_by:
  assumes "\<And>a b. le a b \<or> le b a"
    and "\<And>a b c. le a b \<Longrightarrow> le b c \<Longrightarrow> le a c"
  shows "sorted_wrt le (sort_by le xs)"
proof (induction xs)
  case Nil
  then show ?case by simp
next
  case (Cons x xs)
  have "sorted_wrt le (insort_by le x (sort_by le xs))"
    using assms(1) assms(2) Cons.IH by (rule sorted_insort_by)
  then show ?case by simp
qed

lemma bson_le_total: "bson_le a b \<or> bson_le b a"
  by (cases a; cases b) auto

lemma bson_le_trans: "bson_le a b \<Longrightarrow> bson_le b c \<Longrightarrow> bson_le a c"
  by (cases a; cases b; cases c) auto

lemma set_Query_sort: "set (Query_sort f dir ts) = set ts"
  by (simp add: Query_sort_def set_sort_by)

lemma sorted_Query_sort_asc:
  "sorted_wrt (\<lambda>a b. bson_le (sort_field f a) (sort_field f b)) (Query_sort f 1 ts)"
  unfolding Query_sort_def using bson_le_total bson_le_trans
  by (simp add: sorted_sort_by [where le = "\<lambda>a b. bson_le (sort_field f a) (sort_field f b)"])

lemma sorted_Query_sort_desc:
  "dir \<noteq> 1 \<Longrightarrow> sorted_wrt (\<lambda>a b. bson_le (sort_field f b) (sort_field f a)) (Query_sort f dir ts)"
  unfolding Query_sort_def using bson_le_total bson_le_trans
  by (simp add: sorted_sort_by [where le = "\<lambda>a b. bson_le (sort_field f b) (sort_field f a)"])

lemma lower_lower: "lower (lower c) = lower c"
  by (simp add: lower_def)

lemma is_hex_lower: "is_hex c \<Longrightarrow> is_hex (lower c)"
  by (auto simp: is_hex_def lower_def Let_def)

lemma castObjectId_canonical: "castObjectId s = Some i \<Longrightarrow> castObjectId i = Some i"
  by (auto simp: castObjectId_def lower_lower list_all_iff is_hex_lower split: if_splits)

section \<open>The middleware resolves stored users\<close>

lemma User_findById_Some:
  "User_findById us v = Inr (Some u) \<Longrightarrow>
     u \<in> set us \<and> (\<exists>s. v = Some s \<and> castObjectId s = Some (user_id u))"
  by (auto simp: User_findById_def find_Some_iff split: option.splits)

lemma protect_Inr:
  assumes "protect L E us authorization = Inr u"
  shows "\<exists>d u0. truthy (bearer_token authorization)
           \<and> jwt_verify L (toString (bearer_token authorization)) (JWT_SECRET E) = Inr d
           \<and> User_findById us (payload_id d) = Inr (Some u0) \<and> u = u0\<lparr> password := None \<rparr>"
  using assms
  by (auto simp: protect_def Let_def split: if_splits sum.splits option.splits)

lemma protect_user_id:
  assumes "protect L E us authorization = Inr u"
  shows "castObjectId (user_id u) = Some (user_id u)"
proof -
  from protect_Inr [OF assms] obtain d :: jwt_payload and u0 where
    f: "User_findById us (payload_id d) = Inr (Some u0)" and u: "u = u0\<lparr> password := None \<rparr>"
    by auto
  from User_findById_Some [OF f] obtain s where "castObjectId s = Some (user_id u0)"
    by auto
  then have "castObjectId (user_id u0) = Some (user_id u0)"
    by (rule castObjectId_canonical)
  with u show ?thesis by simp
qed

section \<open>Validation before the store is touched\<close>

text \<open>
  Claim C10. A list request that supplies \<open>status\<close> or \<open>priority\<close> as the empty string
  is answered 400 with the validation errors, among them an error for that field: the empty
  string is a value that is present and not one of the enumerated values. The store is
  unchanged.
\<close>

theorem list_rejects_empty_enum_value:
  assumes "q_status q = Some [] \<or> q_priority q = Some []"
  shows "\<exists>errors. get_tasks L st req_user q = (Response 400 (ValidationFailed errors), st)
           \<and> (q_status q = Some [] \<longrightarrow> (''status'', ''Invalid value'') \<in> set errors)
           \<and> (q_priority q = Some [] \<longrightarrow> (''priority'', ''Invalid value'') \<in> set errors)"
proof -
  have 1: "q_status q = Some [] \<Longrightarrow> (''status'', ''Invalid value'') \<in> set (list_errors q)"
    by (simp add: list_errors_def optional_isIn_def statuses_def)
  have 2: "q_priority q = Some [] \<Longrightarrow> (''priority'', ''Invalid value'') \<in> set (list_errors q)"
    by (simp add: list_errors_def optional_isIn_def priorities_def)
  from assms 1 2 have "list_errors q \<noteq> []" by auto
  then have "get_tasks L st req_user q = (Response 400 (ValidationFailed (list_errors q)), st)"
    by (simp add: get_tasks_def)
  with 1 2 show ?thesis by blast
qed

text \<open>
  \<open>GET /api/tasks?status=\<close> by Ann.
\<close>

theorem list_rejects_empty_enum_value_witness:
  "(q_status (no_query\<lparr> q_status := Some [] \<rparr>) = Some []
      \<or> q_priority (no_query\<lparr> q_status := Some [] \<rparr>) = Some [])
   \<and> get_tasks demo_lib demo_state alice (no_query\<lparr> q_status := Some [] \<rparr>)
       = (Response 400 (ValidationFailed [(''status'', ''Invalid value'')]), demo_state)"
  using list_rejects_empty_enum_value [of "no_query\<lparr> q_status := Some [] \<rparr>" demo_lib demo_state alice]
  by (simp add: get_tasks_def list_errors_def optional_isIn_def statuses_def no_query_def)

text \<open>
  Claim C7. A create request whose title, after trimming, is empty (a missing title counts
  as empty) or longer than 200 characters is answered 400 with a non-empty list of
  validation errors, and the store is the one before the request.
\<close>

theorem create_rejects_bad_title:
  assumes "trim (toString (b_title b)) = [] \<or> 200 < length (trim (toString (b_title b)))"
  shows "\<exists>errors. errors \<noteq> []
           \<and> post_task L E st req_user b = (Response 400 (ValidationFailed errors), st)"
proof -
  from assms have "create_errors L b \<noteq> []"
    by (auto simp: create_errors_def check_def Let_def)
  then show ?thesis
    by (simp add: post_task_def)
qed

text \<open>
  A title of 201 characters.
\<close>

theorem create_rejects_bad_title_witness:
  "(trim (toString (b_title (no_body\<lparr> b_title := Some (replicate 201 CHR ''x'') \<rparr>))) = []
      \<or> 200 < length (trim (toString (b_title (no_body\<lparr> b_title := Some (replicate 201 CHR ''x'') \<rparr>)))))
   \<and> (\<exists>errors. errors \<noteq> []
         \<and> post_task demo_lib demo_env demo_state alice (no_body\<lparr> b_title := Some (replicate 201 CHR ''x'') \<rparr>)
             = (Response 400 (ValidationFailed errors), demo_state))"
proof -
  have "trim (replicate 201 CHR ''x'') = replicate 201 CHR ''x''"
    by (simp add: trim_def is_space_def dropWhile_replicate)
  then have h: "trim (toString (b_title (no_body\<lparr> b_title := Some (replicate 201 CHR ''x'') \<rparr>))) = []
      \<or> 200 < length (trim (toString (b_title (no_body\<lparr> b_title := Some (replicate 201 CHR ''x'') \<rparr>))))"
    by (simp add: toString_def)
  from h create_rejects_bad_title [OF h] show ?thesis by blast
qed

section \<open>The owner of a created task\<close>

text \<open>
  Claim C9. When a create request through the router is answered 201, the middleware has
  resolved a user, the new task is appended to the collection, and its owner is that user.
  Whatever \<open>user\<close> member the body carries makes no difference: replacing it by any other
  value, or removing it, gives the same response and the same store.
\<close>

theorem create_owner_is_requester:
  assumes "tasks_router L E st authorization (CreateTask b) = (Response 201 body, st')"
  shows "\<exists>req_user t. protect L E (users st) authorization = Inr req_user
           \<and> body = TaskMessage ''Task created successfully'' (Some t)
           \<and> tasks st' = tasks st @ [t] \<and> users st' = users st
           \<and> user t = user_id req_user
           \<and> tasks_router L E st authorization (CreateTask (b\<lparr> b_user := other \<rparr>))
               = (Response 201 body, st')"
proof -
  from assms obtain u where u: "protect L E (users st) authorization = Inr u"
    and post: "post_task L E st u b = (Response 201 body, st')"
    by (auto simp: tasks_router_def not_authorized_def invalid_token_def user_not_found_def
        protect_def Let_def split: sum.splits if_splits option.splits)
  have cast: "castObjectId (user_id u) = Some (user_id u)"
    using u by (rule protect_user_id)
  have same: "post_task L E st u (b\<lparr> b_user := other \<rparr>) = post_task L E st u b"
    by (simp add: post_task_def create_errors_def common_errors_def sanitized_def)
  from post cast obtain t where
    "body = TaskMessage ''Task created successfully'' (Some t)"
    "tasks st' = tasks st @ [t]" "users st' = users st" "user t = user_id u"
    by (auto simp: post_task_def Task_create_def Let_def sanitized_def
        split: if_splits sum.splits option.splits prod.splits)
  moreover have "tasks_router L E st authorization (CreateTask (b\<lparr> b_user := other \<rparr>))
      = (Response 201 body, st')"
    using u post same by (simp add: tasks_router_def)
  ultimately show ?thesis using u by blast
qed


text \<open>
  Ann creates a task with a body that names Bob as the owner.
\<close>

theorem create_owner_is_requester_witness:
  "tasks_router demo_lib demo_env demo_state (Some ''Bearer token-of-alice'')
     (CreateTask (no_body\<lparr> b_title := Some ''Plan'', b_user := Some bob_id \<rparr>))
     = (Response 201 (TaskMessage ''Task created successfully''
          (Some \<lparr> task_id = ''75a1f0c2b3d4e5f6a7b8c9ff'', title = ''Plan'', description = None,
                  status = ''todo'', priority = ''medium'', dueDate = None, user = alice_id,
                  createdAt = 1000, updatedAt = 1000 \<rparr>)),
        demo_state\<lparr> tasks := tasks demo_state @
          [\<lparr> task_id = ''75a1f0c2b3d4e5f6a7b8c9ff'', title = ''Plan'', description = None,
             status = ''todo'', priority = ''medium'', dueDate = None, user = alice_id,
             createdAt = 1000, updatedAt = 1000 \<rparr>] \<rparr>)
   \<and> (\<exists>req_user t. protect demo_lib demo_env (users demo_state) (Some ''Bearer token-of-alice'') = Inr req_user
         \<and> tasks (demo_state\<lparr> tasks := tasks demo_state @
              [\<lparr> task_id = ''75a1f0c2b3d4e5f6a7b8c9ff'', title = ''Plan'', description = None,
                 status = ''todo'', priority = ''medium'', dueDate = None, user = alice_id,
                 createdAt = 1000, updatedAt = 1000 \<rparr>] \<rparr>) = tasks demo_state @ [t]
         \<and> user t = user_id req_user)"
proof -
  have h: "tasks_router demo_lib demo_env demo_state (Some ''Bearer token-of-alice'')
     (CreateTask (no_body\<lparr> b_title := Some ''Plan'', b_user := Some bob_id \<rparr>))
     = (Response 201 (TaskMessage ''Task created successfully''
          (Some \<lparr> task_id = ''75a1f0c2b3d4e5f6a7b8c9ff'', title = ''Plan'', description = None,
                  status = ''todo'', priority = ''medium'', dueDate = None, user = alice_id,
                  createdAt = 1000, updatedAt = 1000 \<rparr>)),
        demo_state\<lparr> tasks := tasks demo_state @
          [\<lparr> task_id = ''75a1f0c2b3d4e5f6a7b8c9ff'', title = ''Plan'', description = None,
             status = ''todo'', priority = ''medium'', dueDate = None, user = alice_id,
             createdAt = 1000, updatedAt = 1000 \<rparr>] \<rparr>)"
    by code_simp
  from create_owner_is_requester [OF h] have
    "\<exists>req_user t. protect demo_lib demo_env (users demo_state) (Some ''Bearer token-of-alice'') = Inr req_user
         \<and> tasks (demo_state\<lparr> tasks := tasks demo_state @
              [\<lparr> task_id = ''75a1f0c2b3d4e5f6a7b8c9ff'', title = ''Plan'', description = None,
                 status = ''todo'', priority = ''medium'', dueDate = None, user = alice_id,
                 createdAt = 1000, updatedAt = 1000 \<rparr>] \<rparr>) = tasks demo_state @ [t]
         \<and> user t = user_id req_user"
    by blast
  with h show ?thesis by (rule conjI)
qed

section \<open>The task list\<close>

lemma list_errors_truthy:
  assumes "list_errors q = []"
  shows "q_status q = Some s \<Longrightarrow> s \<noteq> []" and "q_priority q = Some p \<Longrightarrow> p \<noteq> []"
  using assms
  by (auto simp: list_errors_def optional_isIn_def statuses_def priorities_def split: if_splits)

lemma get_tasks_200:
  assumes "get_tasks L st req_user q = (Response 200 (TaskList n ts), st')"
  shows "list_errors q = [] \<and> st' = st \<and> n = length ts
    \<and> (\<exists>found. Task_find L \<lparr> f_user = user_id req_user, f_status = q_status q,
           f_priority = q_priority q,
           f_search = (if truthy (map_option trim (q_search q)) then map_option trim (q_search q) else None) \<rparr>
           (tasks st) = Some found
         \<and> ts = Query_sort (case q_sortBy q of None \<Rightarrow> ''createdAt'' | Some s \<Rightarrow> s)
              (if (case q_sortOrder q of None \<Rightarrow> ''desc'' | Some s \<Rightarrow> s) = ''asc'' then 1 else - 1) found)"
proof -
  from assms have e: "list_errors q = []"
    by (auto simp: get_tasks_def Let_def split: if_splits)
  have s: "(if truthy (q_status q) then q_status q else None) = q_status q"
    using list_errors_truthy(1) [OF e] by (cases "q_status q") auto
  have p: "(if truthy (q_priority q) then q_priority q else None) = q_priority q"
    using list_errors_truthy(2) [OF e] by (cases "q_priority q") auto
  from assms e show ?thesis
    unfolding get_tasks_def Let_def s p
    by (auto split: option.splits)
qed

lemma Task_find_set:
  assumes "Task_find L f ts = Some found"
  shows "set found = {t \<in> set ts. filter_matches f t
           \<and> (\<forall>p. f_search f = Some p \<longrightarrow> (\<exists>m. regex_i L p = Some m \<and> or_regex m t))}"
  using assms
  by (auto simp: Task_find_def split: option.splits)

text \<open>
  Claim C1 (amended). When a list request is answered 200, the returned tasks are exactly
  the tasks of the collection that are owned by the requesting user and satisfy every
  filter the request supplies: the status equals the requested status, the priority equals
  the requested priority, and the trimmed search pattern, when not empty, matches the title
  or the description. In particular no task of another user is ever returned, and with a
  status filter every returned task has that status. The count is the number of returned
  tasks and the store is unchanged.
\<close>

theorem list_returns_owned_matching_tasks:
  assumes "get_tasks L st req_user q = (Response 200 (TaskList n ts), st')"
  shows "set ts = {t \<in> set (tasks st). user t = user_id req_user
             \<and> (\<forall>s. q_status q = Some s \<longrightarrow> status t = s)
             \<and> (\<forall>p. q_priority q = Some p \<longrightarrow> priority t = p)
             \<and> (\<forall>p. map_option trim (q_search q) = Some p \<longrightarrow> p \<noteq> [] \<longrightarrow>
                   (\<exists>m. regex_i L p = Some m \<and> or_regex m t))}
         \<and> n = length ts \<and> st' = st"
proof -
  let ?search = "map_option trim (q_search q)"
  let ?f = "\<lparr> f_user = user_id req_user, f_status = q_status q, f_priority = q_priority q,
              f_search = (if truthy ?search then ?search else None) \<rparr>"
  from get_tasks_200 [OF assms] obtain found where
    n: "n = length ts" and st: "st' = st"
    and found: "Task_find L ?f (tasks st) = Some found"
    and ts: "ts = Query_sort (case q_sortBy q of None \<Rightarrow> ''createdAt'' | Some s \<Rightarrow> s)
              (if (case q_sortOrder q of None \<Rightarrow> ''desc'' | Some s \<Rightarrow> s) = ''asc'' then 1 else - 1) found"
    by blast
  have m: "filter_matches ?f t \<longleftrightarrow> user t = user_id req_user
             \<and> (\<forall>s. q_status q = Some s \<longrightarrow> status t = s)
             \<and> (\<forall>p. q_priority q = Some p \<longrightarrow> priority t = p)" for t
    by (auto simp: filter_matches_def field_matches_def split: option.splits)
  have s: "(\<forall>p. f_search ?f = Some p \<longrightarrow> (\<exists>m. regex_i L p = Some m \<and> or_regex m t))
      \<longleftrightarrow> (\<forall>p. ?search = Some p \<longrightarrow> p \<noteq> [] \<longrightarrow> (\<exists>m. regex_i L p = Some m \<and> or_regex m t))" for t
    by (cases ?search) auto
  have "set ts = set found"
    using ts by (simp add: set_Query_sort)
  also have "\<dots> = {t \<in> set (tasks st). filter_matches ?f t
           \<and> (\<forall>p. f_search ?f = Some p \<longrightarrow> (\<exists>m. regex_i L p = Some m \<and> or_regex m t))}"
    using found by (rule Task_find_set)
  finally show ?thesis
    using n st unfolding m s by simp
qed

text \<open>
  Ann lists her completed tasks of high priority.
\<close>

theorem list_returns_owned_matching_tasks_witness:
  "get_tasks demo_lib demo_state alice
     (no_query\<lparr> q_status := Some ''completed'', q_priority := Some ''high'' \<rparr>)
     = (Response 200 (TaskList 1 [task_milk]), demo_state)
   \<and> set [task_milk] = {t \<in> set (tasks demo_state). user t = user_id alice
         \<and> (\<forall>s. q_status (no_query\<lparr> q_status := Some ''completed'', q_priority := Some ''high'' \<rparr>) = Some s
               \<longrightarrow> status t = s)
         \<and> (\<forall>p. q_priority (no_query\<lparr> q_status := Some ''completed'', q_priority := Some ''high'' \<rparr>) = Some p
               \<longrightarrow> priority t = p)
         \<and> (\<forall>p. map_option trim (q_search (no_query\<lparr> q_status := Some ''completed'', q_priority := Some ''high'' \<rparr>)) = Some p
               \<longrightarrow> p \<noteq> [] \<longrightarrow> (\<exists>m. regex_i demo_lib p = Some m \<and> or_regex m t))}"
proof -
  have h: "get_tasks demo_lib demo_state alice
     (no_query\<lparr> q_status := Some ''completed'', q_priority := Some ''high'' \<rparr>)
     = (Response 200 (TaskList 1 [task_milk]), demo_state)"
    by code_simp
  from h list_returns_owned_matching_tasks [OF h] show ?thesis by blast
qed

text \<open>
  Owner and status alone do not determine the result: with \<open>status=completed\<close> and
  \<open>priority=high\<close>, Ann's completed task of low priority is not returned.
\<close>

theorem list_status_and_priority_counterexample:
  "get_tasks demo_lib demo_state alice
     (no_query\<lparr> q_status := Some ''completed'', q_priority := Some ''high'' \<rparr>)
     = (Response 200 (TaskList 1 [task_milk]), demo_state)
   \<and> task_spec \<in> set (tasks demo_state) \<and> user task_spec = user_id alice
   \<and> status task_spec = ''completed'' \<and> task_spec \<notin> set [task_milk]"
  by code_simp


subsection \<open>Search\<close>

lemma contains_ci_iff:
  "contains_ci x p \<longleftrightarrow> (\<exists>a b. map lower x = a @ map lower p @ b)"
  by (simp add: contains_ci_def contains_iff)

text \<open>
  Claim C3 (amended). For a list request with a search string \<open>s\<close> and no status or
  priority filter, where the trimmed \<open>s\<close> consists of ASCII characters that are not in
  \<^const>\<open>regex_special\<close>: the request is answered 200, and a task owned by the requesting
  user is among the returned tasks if and only if the trimmed \<open>s\<close> occurs, letter case
  ignored, as a run of consecutive characters in the title or in the description of the
  task.
\<close>

theorem list_search_matches_trimmed_literal:
  assumes "list_errors q = []" and "q_status q = None" and "q_priority q = None"
    and "q_search q = Some s" and "regex_literal (trim s)"
    and "t \<in> set (tasks st)" and "user t = user_id req_user"
  shows "\<exists>ts. get_tasks L st req_user q = (Response 200 (TaskList (length ts) ts), st)
           \<and> (t \<in> set ts \<longleftrightarrow>
                 (\<exists>a b. map lower (title t) = a @ map lower (trim s) @ b)
                 \<or> (\<exists>d a b. description t = Some d \<and> map lower d = a @ map lower (trim s) @ b))"
proof -
  let ?found = "filter (\<lambda>x. user x = user_id req_user
                  \<and> (trim s \<noteq> [] \<longrightarrow> or_regex (\<lambda>y. contains_ci y (trim s)) x)) (tasks st)"
  let ?ts = "Query_sort (case q_sortBy q of None \<Rightarrow> ''createdAt'' | Some x \<Rightarrow> x)
               (if (case q_sortOrder q of None \<Rightarrow> ''desc'' | Some x \<Rightarrow> x) = ''asc'' then 1 else - 1) ?found"
  have found: "Task_find L \<lparr> f_user = user_id req_user, f_status = None, f_priority = None,
                  f_search = (if truthy (Some (trim s)) then Some (trim s) else None) \<rparr> (tasks st)
                = Some ?found"
    using assms(5)
    by (cases "trim s = []")
       (simp_all add: Task_find_def regex_i_def filter_matches_def [abs_def] field_matches_def)
  have sq: "map_option trim (q_search q) = Some (trim s)"
    using assms(4) by simp
  have res: "get_tasks L st req_user q = (Response 200 (TaskList (length ?ts) ?ts), st)"
    unfolding get_tasks_def Let_def sq using assms(1-3) found
    by (simp split del: if_split)
  have "t \<in> set ?ts \<longleftrightarrow> t \<in> set ?found"
    by (simp add: set_Query_sort)
  also have "\<dots> \<longleftrightarrow> (trim s \<noteq> [] \<longrightarrow> or_regex (\<lambda>x. contains_ci x (trim s)) t)"
    using assms(6,7) by simp
  also have "\<dots> \<longleftrightarrow> (\<exists>a b. map lower (title t) = a @ map lower (trim s) @ b)
                 \<or> (\<exists>d a b. description t = Some d \<and> map lower d = a @ map lower (trim s) @ b)"
  proof (cases "trim s = []")
    case True
    have "map lower (title t) = [] @ map lower [] @ map lower (title t)" by simp
    then have "\<exists>a b. map lower (title t) = a @ map lower [] @ b" by blast
    with True show ?thesis by simp
  next
    case False
    then show ?thesis
      by (auto simp: or_regex_def contains_ci_iff split: option.splits)
  qed
  finally show ?thesis using res by blast
qed

text \<open>
  Ann searches for \<open>" MILK "\<close>.
\<close>

theorem list_search_matches_trimmed_literal_witness:
  "list_errors (no_query\<lparr> q_search := Some '' MILK '' \<rparr>) = []
   \<and> q_status (no_query\<lparr> q_search := Some '' MILK '' \<rparr>) = None
   \<and> q_priority (no_query\<lparr> q_search := Some '' MILK '' \<rparr>) = None
   \<and> q_search (no_query\<lparr> q_search := Some '' MILK '' \<rparr>) = Some '' MILK ''
   \<and> regex_literal (trim '' MILK '')
   \<and> task_milk \<in> set (tasks demo_state) \<and> user task_milk = user_id alice
   \<and> (\<exists>ts. get_tasks demo_lib demo_state alice (no_query\<lparr> q_search := Some '' MILK '' \<rparr>)
              = (Response 200 (TaskList (length ts) ts), demo_state)
         \<and> (task_milk \<in> set ts \<longleftrightarrow>
               (\<exists>a b. map lower (title task_milk) = a @ map lower (trim '' MILK '') @ b)
               \<or> (\<exists>d a b. description task_milk = Some d
                     \<and> map lower d = a @ map lower (trim '' MILK '') @ b)))"
proof -
  have 1: "list_errors (no_query\<lparr> q_search := Some '' MILK '' \<rparr>) = []" by code_simp
  have 2: "q_status (no_query\<lparr> q_search := Some '' MILK '' \<rparr>) = None" by code_simp
  have 3: "q_priority (no_query\<lparr> q_search := Some '' MILK '' \<rparr>) = None" by code_simp
  have 4: "q_search (no_query\<lparr> q_search := Some '' MILK '' \<rparr>) = Some '' MILK ''" by code_simp
  have 5: "regex_literal (trim '' MILK '')" by code_simp
  have 6: "task_milk \<in> set (tasks demo_state)" by code_simp
  have 7: "user task_milk = user_id alice" by code_simp
  from 1 2 3 4 5 6 7
    list_search_matches_trimmed_literal [OF 1 2 3 4 5 6 7, of demo_lib]
  show ?thesis by blast
qed

text \<open>
  The search string itself need not occur: \<open>" MILK "\<close>, with its spaces, occurs neither
  in the title nor in the description of the task that the search returns.
\<close>

theorem list_search_untrimmed_counterexample:
  "get_tasks demo_lib demo_state alice (no_query\<lparr> q_search := Some '' MILK '' \<rparr>)
     = (Response 200 (TaskList 1 [task_milk]), demo_state)
   \<and> user task_milk = user_id alice
   \<and> \<not> contains_ci (title task_milk) '' MILK ''
   \<and> description task_milk = Some ''Two litres''
   \<and> \<not> contains_ci ''Two litres'' '' MILK ''"
  by code_simp

subsection \<open>Sorting by priority\<close>

lemma sort_field_priority: "sort_field ''priority'' t = BString (priority t)"
  by (simp add: sort_field_def)

text \<open>
  Claim C6. When a list request with \<open>sortBy=priority\<close> is answered 200, the returned
  tasks are in the order of their priority strings: non-decreasing for \<open>sortOrder=asc\<close>,
  non-increasing otherwise (\<open>desc\<close>, also the default). The order on the strings is the
  lexicographic one, in which \<open>high\<close> comes before \<open>low\<close> and \<open>low\<close> before \<open>medium\<close>.
\<close>

theorem list_sorts_priority_as_string:
  assumes "q_sortBy q = Some ''priority''"
    and "get_tasks L st req_user q = (Response 200 (TaskList n ts), st')"
  shows "(if q_sortOrder q = Some ''asc''
          then sorted_wrt (\<lambda>a b. priority a \<le> priority b) ts
          else sorted_wrt (\<lambda>a b. priority b \<le> priority a) ts)
         \<and> (''high'' :: string) < ''low'' \<and> (''low'' :: string) < ''medium''"
proof -
  from get_tasks_200 [OF assms(2)] assms(1) obtain found where
    ts: "ts = Query_sort ''priority''
              (if (case q_sortOrder q of None \<Rightarrow> ''desc'' | Some s \<Rightarrow> s) = ''asc'' then 1 else - 1) found"
    by auto
  have "sorted_wrt (\<lambda>a b. priority a \<le> priority b) ts" if "q_sortOrder q = Some ''asc''"
    using that ts sorted_Query_sort_asc [of "''priority''" found]
    by (simp add: sort_field_priority)
  moreover have "sorted_wrt (\<lambda>a b. priority b \<le> priority a) ts" if "q_sortOrder q \<noteq> Some ''asc''"
  proof -
    from that have "(if (case q_sortOrder q of None \<Rightarrow> ''desc'' | Some s \<Rightarrow> s) = ''asc'' then 1 else - 1)
        = (- 1 :: int)"
      by (cases "q_sortOrder q") auto
    with ts have "ts = Query_sort ''priority'' (- 1) found" by simp
    then show ?thesis
      using sorted_Query_sort_desc [of "- 1" "''priority''" found]
      by (simp add: sort_field_priority)
  qed
  moreover have "(''high'' :: string) < ''low''" "(''low'' :: string) < ''medium''"
    by simp_all
  ultimately show ?thesis by simp
qed

text \<open>
  Ann's three tasks in ascending order of priority: high, low, medium.
\<close>

theorem list_sorts_priority_as_string_witness:
  "q_sortBy (no_query\<lparr> q_sortBy := Some ''priority'', q_sortOrder := Some ''asc'' \<rparr>) = Some ''priority''
   \<and> get_tasks demo_lib demo_state alice
        (no_query\<lparr> q_sortBy := Some ''priority'', q_sortOrder := Some ''asc'' \<rparr>)
       = (Response 200 (TaskList 3 [task_milk, task_spec, task_call]), demo_state)
   \<and> map priority [task_milk, task_spec, task_call] = [''high'', ''low'', ''medium'']
   \<and> sorted_wrt (\<lambda>a b. priority a \<le> priority b) [task_milk, task_spec, task_call]"
proof -
  have 1: "q_sortBy (no_query\<lparr> q_sortBy := Some ''priority'', q_sortOrder := Some ''asc'' \<rparr>) = Some ''priority''"
    by code_simp
  have 2: "get_tasks demo_lib demo_state alice
        (no_query\<lparr> q_sortBy := Some ''priority'', q_sortOrder := Some ''asc'' \<rparr>)
       = (Response 200 (TaskList 3 [task_milk, task_spec, task_call]), demo_state)"
    by code_simp
  have 3: "map priority [task_milk, task_spec, task_call] = [''high'', ''low'', ''medium'']"
    by code_simp
  have 4: "q_sortOrder (no_query\<lparr> q_sortBy := Some ''priority'', q_sortOrder := Some ''asc'' \<rparr>) = Some ''asc''"
    by code_simp
  from list_sorts_priority_as_string [OF 1 2] 4
  have "sorted_wrt (\<lambda>a b. priority a \<le> priority b) [task_milk, task_spec, task_call]"
    by simp
  with 1 2 3 show ?thesis by simp
qed

section \<open>Tasks of other users\<close>

lemma find_foreign_task:
  assumes "distinct (map task_id ts)" and "t \<in> set ts" and "user t \<noteq> owner"
  shows "find (\<lambda>x. task_id x = task_id t \<and> user x = owner) ts = None"
proof -
  have "x = t" if "x \<in> set ts" and "task_id x = task_id t" for x
    using that assms(1,2) by (auto simp: distinct_map inj_on_def)
  with assms(3) show ?thesis
    by (auto simp: find_None_iff)
qed

lemma find_absent_task:
  assumes "i \<notin> set (map task_id ts)"
  shows "find (\<lambda>x. task_id x = i \<and> user x = owner) ts = None"
  using assms by (auto simp: find_None_iff)

text \<open>
  Claim C4 (amended). Let the identifiers of the collection be distinct, let an identifier
  of the URL name a task owned by another user than the requesting one, and let a second
  identifier name no task. Then get and delete are answered 404 \<open>Task not found\<close>, and so
  is an update whose body passes the validation chains; an update whose body fails them is
  answered 400 with the validation errors. Each of the three operations gives the same
  response and the same store for the identifier that names no task, and the store is
  unchanged in every case.
\<close>

theorem foreign_task_is_not_found:
  assumes "distinct (map task_id (tasks st))"
    and "t \<in> set (tasks st)" and "castObjectId params_id = Some (task_id t)"
    and "user t \<noteq> user_id req_user"
    and "castObjectId absent_id = Some i" and "i \<notin> set (map task_id (tasks st))"
  shows "get_task st req_user params_id = (Response 404 (Message ''Task not found''), st)
       \<and> delete_task st req_user params_id = (Response 404 (Message ''Task not found''), st)
       \<and> (update_errors L b = [] \<longrightarrow>
            put_task L E st req_user params_id b = (Response 404 (Message ''Task not found''), st))
       \<and> (update_errors L b \<noteq> [] \<longrightarrow>
            put_task L E st req_user params_id b
              = (Response 400 (ValidationFailed (update_errors L b)), st))
       \<and> get_task st req_user absent_id = get_task st req_user params_id
       \<and> delete_task st req_user absent_id = delete_task st req_user params_id
       \<and> put_task L E st req_user absent_id b = put_task L E st req_user params_id b"
proof -
  have 1: "Task_findOne (tasks st) params_id (user_id req_user) = Inr None"
    using find_foreign_task [OF assms(1,2,4)] assms(3) by (simp add: Task_findOne_def)
  have 2: "Task_findOne (tasks st) absent_id (user_id req_user) = Inr None"
    using find_absent_task [OF assms(6)] assms(5) by (simp add: Task_findOne_def)
  show ?thesis
    by (simp add: get_task_def delete_task_def put_task_def Let_def 1 2 not_found_def)
qed

text \<open>
  Ann asks for Bob's task, the identifier written in upper case, and for an identifier
  that names no task.
\<close>

theorem foreign_task_is_not_found_witness:
  "distinct (map task_id (tasks demo_state))
   \<and> task_bob \<in> set (tasks demo_state)
   \<and> castObjectId ''75A1F0C2B3D4E5F6A7B8C9B1'' = Some (task_id task_bob)
   \<and> user task_bob \<noteq> user_id alice
   \<and> castObjectId ''75a1f0c2b3d4e5f6a7b8c9ee'' = Some ''75a1f0c2b3d4e5f6a7b8c9ee''
   \<and> ''75a1f0c2b3d4e5f6a7b8c9ee'' \<notin> set (map task_id (tasks demo_state))
   \<and> get_task demo_state alice ''75A1F0C2B3D4E5F6A7B8C9B1''
       = (Response 404 (Message ''Task not found''), demo_state)
   \<and> delete_task demo_state alice ''75A1F0C2B3D4E5F6A7B8C9B1''
       = (Response 404 (Message ''Task not found''), demo_state)
   \<and> put_task demo_lib demo_env demo_state alice ''75A1F0C2B3D4E5F6A7B8C9B1''
        (no_body\<lparr> b_title := Some ''Mine now'' \<rparr>)
       = (Response 404 (Message ''Task not found''), demo_state)
   \<and> put_task demo_lib demo_env demo_state alice ''75a1f0c2b3d4e5f6a7b8c9ee''
        (no_body\<lparr> b_title := Some ''Mine now'' \<rparr>)
       = (Response 404 (Message ''Task not found''), demo_state)"
proof -
  have 1: "distinct (map task_id (tasks demo_state))" by code_simp
  have 2: "task_bob \<in> set (tasks demo_state)" by code_simp
  have 3: "castObjectId ''75A1F0C2B3D4E5F6A7B8C9B1'' = Some (task_id task_bob)" by code_simp
  have 4: "user task_bob \<noteq> user_id alice" by code_simp
  have 5: "castObjectId ''75a1f0c2b3d4e5f6a7b8c9ee'' = Some ''75a1f0c2b3d4e5f6a7b8c9ee''" by code_simp
  have 6: "''75a1f0c2b3d4e5f6a7b8c9ee'' \<notin> set (map task_id (tasks demo_state))" by code_simp
  have 7: "update_errors demo_lib (no_body\<lparr> b_title := Some ''Mine now'' \<rparr>) = []" by code_simp
  from foreign_task_is_not_found [OF 1 2 3 4 5 6, of demo_lib "no_body\<lparr> b_title := Some ''Mine now'' \<rparr>" demo_env] 7
  have "get_task demo_state alice ''75A1F0C2B3D4E5F6A7B8C9B1''
       = (Response 404 (Message ''Task not found''), demo_state)
   \<and> delete_task demo_state alice ''75A1F0C2B3D4E5F6A7B8C9B1''
       = (Response 404 (Message ''Task not found''), demo_state)
   \<and> put_task demo_lib demo_env demo_state alice ''75A1F0C2B3D4E5F6A7B8C9B1''
        (no_body\<lparr> b_title := Some ''Mine now'' \<rparr>)
       = (Response 404 (Message ''Task not found''), demo_state)
   \<and> put_task demo_lib demo_env demo_state alice ''75a1f0c2b3d4e5f6a7b8c9ee''
        (no_body\<lparr> b_title := Some ''Mine now'' \<rparr>)
       = (Response 404 (Message ''Task not found''), demo_state)"
    by simp
  with 1 2 3 4 5 6 show ?thesis by blast
qed

text \<open>
  An update is validated before the task is looked up: Ann's update of Bob's task with an
  empty title is answered 400, not 404.
\<close>

theorem foreign_task_invalid_update_counterexample:
  "task_bob \<in> set (tasks demo_state) \<and> user task_bob \<noteq> user_id alice
   \<and> put_task demo_lib demo_env demo_state alice (task_id task_bob) (no_body\<lparr> b_title := Some [] \<rparr>)
       = (Response 400 (ValidationFailed [(''title'', ''Title cannot be empty'')]), demo_state)"
  by code_simp

section \<open>The owner of an updated task\<close>

text \<open>
  Claim C2 fails on the code. Ann updates her own task with a body whose only member is
  \<open>user\<close>, set to Bob's identifier. The update is answered 200 and the stored task is
  owned by Bob afterwards: \<open>PUT /api/tasks/:id\<close> hands the body to
  \<open>findByIdAndUpdate\<close> as it is, where \<open>POST /api/tasks\<close> overrides the member.
\<close>

theorem update_overwrites_owner:
  "task_spec \<in> set (tasks demo_state) \<and> user task_spec = user_id alice
   \<and> put_task demo_lib demo_env demo_state alice (task_id task_spec) (no_body\<lparr> b_user := Some bob_id \<rparr>)
       = (Response 200 (TaskMessage ''Task updated successfully''
            (Some (task_spec\<lparr> user := bob_id, updatedAt := 1000 \<rparr>))),
          demo_state\<lparr> tasks := [task_spec\<lparr> user := bob_id, updatedAt := 1000 \<rparr>,
                                  task_milk, task_call, task_bob] \<rparr>)
   \<and> user (task_spec\<lparr> user := bob_id, updatedAt := 1000 \<rparr>) \<noteq> user task_spec"
  by code_simp

section \<open>Requests without a valid identity\<close>

lemma protect_Inl:
  assumes "\<not> truthy (bearer_token authorization)
      \<or> (\<exists>e. jwt_verify L (toString (bearer_token authorization)) (JWT_SECRET E) = Inl e)
      \<or> (\<exists>d. jwt_verify L (toString (bearer_token authorization)) (JWT_SECRET E) = Inr d
            \<and> (\<forall>u. User_findById us (payload_id d) \<noteq> Inr (Some u)))"
  shows "protect L E us authorization \<in> {Inl not_authorized, Inl invalid_token, Inl user_not_found}"
  using assms
  by (auto simp: protect_def Let_def split: sum.splits option.splits)

text \<open>
  Claim C5. Let a request to the task routes or to the profile routes have no
  \<open>Authorization\<close> header, or a header from which no token can be taken, or a token that
  \<open>jwt.verify\<close> rejects, or a token that it accepts while no stored user has the decoded
  identifier. Then the middleware sends a 401 response and releases no user to a handler,
  the router's response is that 401 response, and the store (users and tasks) is unchanged.
\<close>

theorem unauthenticated_requests_touch_nothing:
  assumes "authorization = None
      \<or> \<not> truthy (bearer_token authorization)
      \<or> (\<exists>e. jwt_verify L (toString (bearer_token authorization)) (JWT_SECRET E) = Inl e)
      \<or> (\<exists>d. jwt_verify L (toString (bearer_token authorization)) (JWT_SECRET E) = Inr d
            \<and> \<not> (\<exists>u \<in> set (users st). \<exists>s. payload_id d = Some s
                      \<and> castObjectId s = Some (user_id u)))"
  shows "\<exists>msg. protect L E (users st) authorization = Inl (Response 401 (Message msg))
           \<and> tasks_router L E st authorization r = (Response 401 (Message msg), st)
           \<and> profile_router L E st authorization pr = (Response 401 (Message msg), st)"
proof -
  have none: "authorization = None \<Longrightarrow> \<not> truthy (bearer_token authorization)"
    by (simp add: bearer_token_def)
  have gone: "\<forall>u. User_findById (users st) (payload_id d) \<noteq> Inr (Some u)"
    if "\<not> (\<exists>u \<in> set (users st). \<exists>s. payload_id d = Some s \<and> castObjectId s = Some (user_id u))"
    for d :: jwt_payload
    using that User_findById_Some [of "users st" "payload_id d"] by blast
  from assms none gone have
    "\<not> truthy (bearer_token authorization)
      \<or> (\<exists>e. jwt_verify L (toString (bearer_token authorization)) (JWT_SECRET E) = Inl e)
      \<or> (\<exists>d. jwt_verify L (toString (bearer_token authorization)) (JWT_SECRET E) = Inr d
            \<and> (\<forall>u. User_findById (users st) (payload_id d) \<noteq> Inr (Some u)))"
    by blast
  from protect_Inl [OF this] obtain msg where
    p: "protect L E (users st) authorization = Inl (Response 401 (Message msg))"
    by (auto simp: not_authorized_def invalid_token_def user_not_found_def)
  then have "tasks_router L E st authorization r = (Response 401 (Message msg), st)"
    and "profile_router L E st authorization pr = (Response 401 (Message msg), st)"
    by (simp_all add: tasks_router_def profile_router_def)
  with p show ?thesis by blast
qed

text \<open>
  An expired token on \<open>DELETE /api/tasks/:id\<close> and on \<open>GET /api/profile\<close>.
\<close>

theorem unauthenticated_requests_touch_nothing_witness:
  "(Some ''Bearer old-token-of-alice'' = None
      \<or> \<not> truthy (bearer_token (Some ''Bearer old-token-of-alice''))
      \<or> (\<exists>e. jwt_verify demo_lib (toString (bearer_token (Some ''Bearer old-token-of-alice'')))
                (JWT_SECRET demo_env) = Inl e)
      \<or> (\<exists>d. jwt_verify demo_lib (toString (bearer_token (Some ''Bearer old-token-of-alice'')))
                (JWT_SECRET demo_env) = Inr d
            \<and> \<not> (\<exists>u \<in> set (users demo_state). \<exists>s. payload_id d = Some s
                      \<and> castObjectId s = Some (user_id u))))
   \<and> tasks_router demo_lib demo_env demo_state (Some ''Bearer old-token-of-alice'')
        (DeleteTask (task_id task_spec))
       = (Response 401 (Message ''Invalid token. Please login again.''), demo_state)
   \<and> profile_router demo_lib demo_env demo_state (Some ''Bearer old-token-of-alice'') GetProfile
       = (Response 401 (Message ''Invalid token. Please login again.''), demo_state)"
proof -
  have v: "jwt_verify demo_lib (toString (bearer_token (Some ''Bearer old-token-of-alice'')))
             (JWT_SECRET demo_env) = Inl TokenExpiredError"
    by code_simp
  then have h: "Some ''Bearer old-token-of-alice'' = None
      \<or> \<not> truthy (bearer_token (Some ''Bearer old-token-of-alice''))
      \<or> (\<exists>e. jwt_verify demo_lib (toString (bearer_token (Some ''Bearer old-token-of-alice'')))
                (JWT_SECRET demo_env) = Inl e)
      \<or> (\<exists>d. jwt_verify demo_lib (toString (bearer_token (Some ''Bearer old-token-of-alice'')))
                (JWT_SECRET demo_env) = Inr d
            \<and> \<not> (\<exists>u \<in> set (users demo_state). \<exists>s. payload_id d = Some s
                      \<and> castObjectId s = Some (user_id u)))"
    by blast
  have p: "protect demo_lib demo_env (users demo_state) (Some ''Bearer old-token-of-alice'')
             = Inl (Response 401 (Message ''Invalid token. Please login again.''))"
    by code_simp
  from unauthenticated_requests_touch_nothing
         [OF h, of "DeleteTask (task_id task_spec)" GetProfile] p
  have "tasks_router demo_lib demo_env demo_state (Some ''Bearer old-token-of-alice'')
        (DeleteTask (task_id task_spec))
       = (Response 401 (Message ''Invalid token. Please login again.''), demo_state)
   \<and> profile_router demo_lib demo_env demo_state (Some ''Bearer old-token-of-alice'') GetProfile
       = (Response 401 (Message ''Invalid token. Please login again.''), demo_state)"
    by auto
  with h show ?thesis by (rule conjI)
qed

section \<open>The verdict on a token\<close>

lemma verify_Inr_iff:
  "verify C clock token secret = Inr d \<longleftrightarrow>
     (\<exists>tp. decode C token = Some tp \<and> signature_valid C secret tp \<and> clock < tp_exp tp
           \<and> d = tp_payload tp)"
  by (auto simp: verify_def signature_valid_def split: option.splits)

text \<open>
  Claim C8. Let the package's \<open>verify\<close> be the one of the Token Service, and let a request
  present a token. Verification yields a decoded payload if and only if the token parses,
  its signature is valid under the configured secret and it has not expired, and the
  payload is then the decoded one, with the user identifier. In every other case
  (malformed, unsigned, tampered or expired) the middleware sends one and the same
  response, 401 \<open>Invalid token. Please login again.\<close> And the middleware releases a user
  exactly when the token is valid and unexpired and the lookup of the decoded identifier
  finds that user, whom it releases without the password.
\<close>

theorem gate_accepts_iff_signed_and_unexpired:
  assumes "jwt_verify L = verify C (now E)"
    and "bearer_token authorization = Some token" and "token \<noteq> []"
  shows "((\<exists>d. jwt_verify L token (JWT_SECRET E) = Inr d) \<longleftrightarrow>
            (\<exists>tp. decode C token = Some tp \<and> signature_valid C (JWT_SECRET E) tp
                  \<and> now E < tp_exp tp))
       \<and> (\<forall>tp. decode C token = Some tp \<and> signature_valid C (JWT_SECRET E) tp
                \<and> now E < tp_exp tp \<longrightarrow>
              jwt_verify L token (JWT_SECRET E) = Inr (tp_payload tp))
       \<and> (\<not> (\<exists>tp. decode C token = Some tp \<and> signature_valid C (JWT_SECRET E) tp
                   \<and> now E < tp_exp tp) \<longrightarrow>
              protect L E us authorization
                = Inl (Response 401 (Message ''Invalid token. Please login again.'')))
       \<and> (\<forall>u. protect L E us authorization = Inr u \<longleftrightarrow>
              (\<exists>tp u0. decode C token = Some tp \<and> signature_valid C (JWT_SECRET E) tp
                  \<and> now E < tp_exp tp
                  \<and> User_findById us (payload_id (tp_payload tp)) = Inr (Some u0)
                  \<and> u = u0\<lparr> password := None \<rparr>))"
proof -
  let ?valid = "\<lambda>tp. decode C token = Some tp \<and> signature_valid C (JWT_SECRET E) tp
                  \<and> now E < tp_exp tp"
  have v: "jwt_verify L token (JWT_SECRET E) = Inr d \<longleftrightarrow> (\<exists>tp. ?valid tp \<and> d = tp_payload tp)"
    for d
    unfolding assms(1) by (simp add: verify_Inr_iff conj_assoc)
  have tok: "truthy (bearer_token authorization)"
    "toString (bearer_token authorization) = token"
    using assms(2,3) by (simp_all add: toString_def)
  have 1: "(\<exists>d. jwt_verify L token (JWT_SECRET E) = Inr d) \<longleftrightarrow> (\<exists>tp. ?valid tp)"
    using v by blast
  have 2: "\<forall>tp. ?valid tp \<longrightarrow> jwt_verify L token (JWT_SECRET E) = Inr (tp_payload tp)"
    using v by blast
  have 3: "protect L E us authorization
             = Inl (Response 401 (Message ''Invalid token. Please login again.''))"
    if "\<not> (\<exists>tp. ?valid tp)"
  proof -
    from that 1 have "\<forall>d. jwt_verify L token (JWT_SECRET E) \<noteq> Inr d" by blast
    then obtain e where "jwt_verify L token (JWT_SECRET E) = Inl e"
      by (cases "jwt_verify L token (JWT_SECRET E)") auto
    then show ?thesis
      by (simp add: protect_def tok invalid_token_def)
  qed
  have 4: "protect L E us authorization = Inr u \<longleftrightarrow>
             (\<exists>tp u0. ?valid tp \<and> User_findById us (payload_id (tp_payload tp)) = Inr (Some u0)
                  \<and> u = u0\<lparr> password := None \<rparr>)" for u
  proof
    assume p: "protect L E us authorization = Inr u"
    from protect_Inr [OF p] obtain d u0 where
      d: "jwt_verify L token (JWT_SECRET E) = Inr d"
      and f: "User_findById us (payload_id d) = Inr (Some u0)"
      and u: "u = u0\<lparr> password := None \<rparr>"
      by (auto simp: tok)
    from d v obtain tp where "?valid tp" "d = tp_payload tp" by blast
    with f u show "\<exists>tp u0. ?valid tp \<and> User_findById us (payload_id (tp_payload tp)) = Inr (Some u0)
                  \<and> u = u0\<lparr> password := None \<rparr>"
      by blast
  next
    assume "\<exists>tp u0. ?valid tp \<and> User_findById us (payload_id (tp_payload tp)) = Inr (Some u0)
                  \<and> u = u0\<lparr> password := None \<rparr>"
    then obtain tp u0 where a: "?valid tp"
      and f: "User_findById us (payload_id (tp_payload tp)) = Inr (Some u0)"
      and u: "u = u0\<lparr> password := None \<rparr>"
      by blast
    from a 2 have "jwt_verify L token (JWT_SECRET E) = Inr (tp_payload tp)" by blast
    with f u show "protect L E us authorization = Inr u"
      by (simp add: protect_def tok)
  qed
  from 1 2 3 4 show ?thesis by blast
qed

text \<open>
  Ann's fresh token releases Ann; her expired token, the tampered one, the unsigned one
  and a string that is no token all get the same response.
\<close>

theorem gate_accepts_iff_signed_and_unexpired_witness:
  "jwt_verify token_lib = verify demo_codec (now demo_env)
   \<and> bearer_token (Some ''Bearer fresh-token-of-alice'') = Some ''fresh-token-of-alice''
   \<and> ''fresh-token-of-alice'' \<noteq> []
   \<and> jwt_verify token_lib ''fresh-token-of-alice'' (JWT_SECRET demo_env)
       = Inr \<lparr> payload_id = Some alice_id \<rparr>
   \<and> protect token_lib demo_env (users demo_state) (Some ''Bearer fresh-token-of-alice'')
       = Inr (alice\<lparr> password := None \<rparr>)
   \<and> protect token_lib demo_env (users demo_state) (Some ''Bearer expired-token-of-alice'')
       = Inl (Response 401 (Message ''Invalid token. Please login again.''))
   \<and> protect token_lib demo_env (users demo_state) (Some ''Bearer tampered-token-of-alice'')
       = Inl (Response 401 (Message ''Invalid token. Please login again.''))
   \<and> protect token_lib demo_env (users demo_state) (Some ''Bearer unsigned-token-of-alice'')
       = Inl (Response 401 (Message ''Invalid token. Please login again.''))
   \<and> protect token_lib demo_env (users demo_state) (Some ''Bearer not.a.token'')
       = Inl (Response 401 (Message ''Invalid token. Please login again.''))"
proof -
  let ?fresh = "\<lparr> tp_payload = \<lparr> payload_id = Some alice_id \<rparr>, tp_exp = 2000,
                  tp_signed = ''id=alice;exp=2000'',
                  tp_signature = ''mac(secret_jwt_key,id=alice;exp=2000)'' \<rparr>"
  have l: "jwt_verify token_lib = verify demo_codec (now demo_env)"
    by (simp add: token_lib_def)
  have b1: "bearer_token (Some ''Bearer fresh-token-of-alice'') = Some ''fresh-token-of-alice''"
    by code_simp
  have n1: "''fresh-token-of-alice'' \<noteq> []" by simp
  have d1: "decode demo_codec ''fresh-token-of-alice'' = Some ?fresh" by code_simp
  have s1: "signature_valid demo_codec (JWT_SECRET demo_env) ?fresh" by code_simp
  have e1: "now demo_env < tp_exp ?fresh" by code_simp
  have f1: "User_findById (users demo_state) (payload_id (tp_payload ?fresh)) = Inr (Some alice)"
    by code_simp
  note fresh = gate_accepts_iff_signed_and_unexpired [OF l b1 n1, of "users demo_state"]
  from fresh d1 s1 e1
  have v1: "jwt_verify token_lib ''fresh-token-of-alice'' (JWT_SECRET demo_env)
              = Inr (tp_payload ?fresh)"
    by blast
  from fresh d1 s1 e1 f1
  have p1: "protect token_lib demo_env (users demo_state) (Some ''Bearer fresh-token-of-alice'')
              = Inr (alice\<lparr> password := None \<rparr>)"
    by blast
  have b2: "bearer_token (Some ''Bearer expired-token-of-alice'') = Some ''expired-token-of-alice''"
    by code_simp
  have n2: "''expired-token-of-alice'' \<noteq> []" by simp
  have r2: "\<not> (\<exists>tp. decode demo_codec ''expired-token-of-alice'' = Some tp
                 \<and> signature_valid demo_codec (JWT_SECRET demo_env) tp \<and> now demo_env < tp_exp tp)"
    by (simp add: demo_codec_def demo_env_def)
  from gate_accepts_iff_signed_and_unexpired [OF l b2 n2, of "users demo_state"] r2
  have p2: "protect token_lib demo_env (users demo_state) (Some ''Bearer expired-token-of-alice'')
              = Inl (Response 401 (Message ''Invalid token. Please login again.''))"
    by blast
  have b3: "bearer_token (Some ''Bearer tampered-token-of-alice'') = Some ''tampered-token-of-alice''"
    by code_simp
  have n3: "''tampered-token-of-alice'' \<noteq> []" by simp
  have r3: "\<not> (\<exists>tp. decode demo_codec ''tampered-token-of-alice'' = Some tp
                 \<and> signature_valid demo_codec (JWT_SECRET demo_env) tp \<and> now demo_env < tp_exp tp)"
    by (simp add: demo_codec_def demo_env_def signature_valid_def)
  from gate_accepts_iff_signed_and_unexpired [OF l b3 n3, of "users demo_state"] r3
  have p3: "protect token_lib demo_env (users demo_state) (Some ''Bearer tampered-token-of-alice'')
              = Inl (Response 401 (Message ''Invalid token. Please login again.''))"
    by blast
  have b4: "bearer_token (Some ''Bearer unsigned-token-of-alice'') = Some ''unsigned-token-of-alice''"
    by code_simp
  have n4: "''unsigned-token-of-alice'' \<noteq> []" by simp
  have r4: "\<not> (\<exists>tp. decode demo_codec ''unsigned-token-of-alice'' = Some tp
                 \<and> signature_valid demo_codec (JWT_SECRET demo_env) tp \<and> now demo_env < tp_exp tp)"
    by (simp add: demo_codec_def demo_env_def signature_valid_def)
  from gate_accepts_iff_signed_and_unexpired [OF l b4 n4, of "users demo_state"] r4
  have p4: "protect token_lib demo_env (users demo_state) (Some ''Bearer unsigned-token-of-alice'')
              = Inl (Response 401 (Message ''Invalid token. Please login again.''))"
    by blast
  have b5: "bearer_token (Some ''Bearer not.a.token'') = Some ''not.a.token''"
    by code_simp
  have n5: "''not.a.token'' \<noteq> []" by simp
  have r5: "\<not> (\<exists>tp. decode demo_codec ''not.a.token'' = Some tp
                 \<and> signature_valid demo_codec (JWT_SECRET demo_env) tp \<and> now demo_env < tp_exp tp)"
    by (simp add: demo_codec_def)
  from gate_accepts_iff_signed_and_unexpired [OF l b5 n5, of "users demo_state"] r5
  have p5: "protect token_lib demo_env (users demo_state) (Some ''Bearer not.a.token'')
              = Inl (Response 401 (Message ''Invalid token. Please login again.''))"
    by blast
  from v1 have v1': "jwt_verify token_lib ''fresh-token-of-alice'' (JWT_SECRET demo_env)
       = Inr \<lparr> payload_id = Some alice_id \<rparr>"
    by simp
  from l b1 n1 v1' p1 p2 p3 p4 p5 show ?thesis by blast
qed

end
